theory Spec2Isabelle
  imports Complex_Main
begin

section \<open>Configuration (config.py)\<close>

definition WAIT_TIME :: int where
  "WAIT_TIME = 15"

definition CLOSE_TIME :: int where
  "CLOSE_TIME = 3"

definition DEFAULT_COUNTRY_CODE :: string where
  "DEFAULT_COUNTRY_CODE = ''+91''"

section \<open>Python strings\<close>

text \<open>
  A Python \<^verbatim>\<open>str\<close> is modelled as a \<^typ>\<open>string\<close>; one \<^typ>\<open>char\<close> stands for one
  character of the Python string. \<open>startswith\<close> is \<^verbatim>\<open>str.startswith(prefix)\<close>.
\<close>

definition startswith :: "string \<Rightarrow> string \<Rightarrow> bool" where
  "startswith s p = (take (length p) s = p)"

text \<open>
  \<^verbatim>\<open>str.replace(old, new)\<close>: the text is scanned from the left; where \<open>old\<close> starts,
  \<open>new\<close> is emitted and the scan goes on behind the occurrence; any other character
  is copied. \<open>replace_scan\<close> is the scan for a non-empty \<open>old\<close>
  (\<open>drop (length old - 1) cs\<close> is what follows the occurrence that starts at \<open>c\<close>);
  for the empty \<open>old\<close> Python puts \<open>new\<close> in front of every character and at the end.
\<close>

fun replace_scan :: "string \<Rightarrow> string \<Rightarrow> string \<Rightarrow> string" where
  "replace_scan [] old new = []"
| "replace_scan (c # cs) old new =
     (if startswith (c # cs) old
      then new @ replace_scan (drop (length old - 1) cs) old new
      else c # replace_scan cs old new)"

definition py_replace :: "string \<Rightarrow> string \<Rightarrow> string \<Rightarrow> string" where
  "py_replace s old new =
     (if old = [] then new @ concat (map (\<lambda>c. c # new) s) else replace_scan s old new)"

section \<open>The world around the sender\<close>

text \<open>
  \<open>channel_call\<close> is one call of \<^verbatim>\<open>kit.sendwhatmsg(phone, message, hour, minute,
  wait_time=..., tab_close=True, close_time=...)\<close>. The world holds what the program
  leaves behind: the entries appended to \<^verbatim>\<open>config.LOG_FILE\<close>, the calls made to the
  delivery channel (in order, whether they returned or raised), and the seconds spent
  in \<^verbatim>\<open>time.sleep\<close>. Printing and appending to the log file are taken to succeed.
\<close>

record channel_call =
  cc_phone :: string
  cc_message :: string
  cc_hour :: int
  cc_minute :: int
  cc_wait :: int
  cc_close :: "int option"

record world =
  log_file :: "string list"
  sent :: "channel_call list"
  slept :: nat

text \<open>
  What one dispatch reads from outside: the wall clock (\<^verbatim>\<open>datetime.now()\<close> in
  \<^verbatim>\<open>send_message\<close>), what the delivery channel does with the call (\<open>None\<close>: it returns;
  \<open>Some r\<close>: it raises an exception \<open>e\<close> with \<^verbatim>\<open>str(e)\<close> = \<open>r\<close>), and the time stamp
  \<^verbatim>\<open>datetime.now().strftime("%Y-%m-%d %H:%M:%S")\<close> that \<^verbatim>\<open>log_message\<close> renders.
\<close>

record dispatch_env =
  now_hour :: int
  now_minute :: int
  outcome :: "string option"
  stamp :: string

section \<open>whatsapp\_sender.py\<close>

text \<open>\<^verbatim>\<open>log_message(phone, message, status)\<close>, lines 164-170: one entry is appended.\<close>

definition log_entry :: "string \<Rightarrow> string \<Rightarrow> string \<Rightarrow> string \<Rightarrow> string" where
  "log_entry timestamp phone message status =
     ''['' @ timestamp @ ''] '' @ phone @ '' | '' @ status @ '' | '' @ take 50 message
       @ ''...'' @ [CHR 0x0A]"

definition log_message :: "string \<Rightarrow> string \<Rightarrow> string \<Rightarrow> string \<Rightarrow> world \<Rightarrow> world" where
  "log_message timestamp phone message status w =
     w\<lparr>log_file := log_file w @ [log_entry timestamp phone message status]\<rparr>"

text \<open>
  Lines 35-36 (and the same two lines of \<^verbatim>\<open>send_instant_message\<close> and of
  \<^verbatim>\<open>schedule_message\<close>): the country code is put in front of a number that does not
  start with \<open>+\<close>.
\<close>

definition with_country_code :: "string \<Rightarrow> string" where
  "with_country_code phone_number =
     (if \<not> startswith phone_number ''+'' then DEFAULT_COUNTRY_CODE @ phone_number
      else phone_number)"

text \<open>
  Lines 41-47: \<^verbatim>\<open>hour = now.hour; minute = now.minute + 2; if minute >= 60: hour += 1;
  minute -= 60\<close>.
\<close>

definition target_time :: "int \<Rightarrow> int \<Rightarrow> int \<times> int" where
  "target_time now_h now_m =
     (let hour = now_h; minute = now_m + 2
      in if minute \<ge> 60 then (hour + 1, minute - 60) else (hour, minute))"

text \<open>
  \<^verbatim>\<open>send_message(phone_number, message, wait_time=None)\<close>, lines 18-67. Everything
  before the channel call cannot raise for a \<^verbatim>\<open>str\<close> argument; the channel call either
  returns (the \<^verbatim>\<open>SUCCESS\<close> entry is logged, the result is \<^verbatim>\<open>True\<close>) or raises (the
  handler logs \<^verbatim>\<open>FAILED: <reason>\<close> with the number as already prefixed, the result is
  \<^verbatim>\<open>False\<close>).
\<close>

definition send_message ::
  "dispatch_env \<Rightarrow> string \<Rightarrow> string \<Rightarrow> int option \<Rightarrow> world \<Rightarrow> bool \<times> world" where
  "send_message env phone_number message wait_time w =
     (let wait = (case wait_time of None \<Rightarrow> WAIT_TIME | Some t \<Rightarrow> t);
          phone = with_country_code phone_number;
          (hour, minute) = target_time (now_hour env) (now_minute env);
          w1 = w\<lparr>sent := sent w @
                 [\<lparr>cc_phone = phone, cc_message = message, cc_hour = hour,
                   cc_minute = minute, cc_wait = wait, cc_close = Some CLOSE_TIME\<rparr>]\<rparr>
      in case outcome env of
           None \<Rightarrow> (True, log_message (stamp env) phone message ''SUCCESS'' w1)
         | Some e \<Rightarrow> (False, log_message (stamp env) phone message (''FAILED: '' @ e) w1))"

section \<open>Bulk sending\<close>

text \<open>
  A cell of the table \<^verbatim>\<open>pd.read_csv\<close> returns is a Python \<^verbatim>\<open>str\<close> (\<open>Str\<close>) or some
  other value: the float \<^verbatim>\<open>nan\<close> of an empty cell, a number of a numeric column.
  \<open>NonStr t\<close> is such a value, \<open>t\<close> being the text \<^verbatim>\<open>str()\<close> gives for it.

  \<^verbatim>\<open>df.iterrows()\<close> yields every row with its index label. A file whose data lines
  have as many fields as the header gets the labels 0, 1, 2, ...; when the data lines
  have one field more than the header, \<^verbatim>\<open>pd.read_csv\<close> takes the first field of each
  line as the label of the row. A label is a number (\<open>NumLabel\<close>, an int, a float or a
  bool by its value), the float \<^verbatim>\<open>nan\<close>, or text.

  A row carries its label and the two columns the sender reads; \<open>None\<close> says that
  the table has no such column.
\<close>

datatype label = NumLabel real | NanLabel | StrLabel string

datatype cell = Str string | NonStr string

fun py_str :: "cell \<Rightarrow> string" where
  "py_str (Str s) = s"
| "py_str (NonStr t) = t"

record row =
  index_label :: label
  name_cell :: "cell option"
  phone_cell :: "cell option"

datatype py_exn = FileError string | KeyError string | TypeError string

text \<open>The dictionary \<^verbatim>\<open>{"name": name, "phone": phone, "status": ...}\<close> of line 141.\<close>

record detail =
  d_name :: cell
  d_phone :: string
  d_status :: string

text \<open>The dictionary \<^verbatim>\<open>results\<close> of line 115.\<close>

record results =
  success :: int
  failed :: int
  details :: "detail list"

text \<open>Line 126, \<^verbatim>\<open>row.get('name', 'Friend')\<close>: the default stands in for a missing key.\<close>

definition row_get_name :: "row \<Rightarrow> cell" where
  "row_get_name r = (case name_cell r of None \<Rightarrow> Str ''Friend'' | Some c \<Rightarrow> c)"

text \<open>Line 127, \<^verbatim>\<open>str(row['phone'])\<close>: a missing key raises \<^verbatim>\<open>KeyError\<close>.\<close>

definition row_phone :: "row \<Rightarrow> py_exn + string" where
  "row_phone r = (case phone_cell r of None \<Rightarrow> Inl (KeyError ''phone'') | Some c \<Rightarrow> Inr (py_str c))"

text \<open>
  Line 130, \<^verbatim>\<open>message.replace("{name}", name) if personalize else message\<close>:
  \<^verbatim>\<open>str.replace\<close> raises \<^verbatim>\<open>TypeError\<close> for an argument that is not a \<^verbatim>\<open>str\<close>.
\<close>

definition current_message :: "string \<Rightarrow> cell \<Rightarrow> bool \<Rightarrow> py_exn + string" where
  "current_message message name personalize =
     (if personalize
      then (case name of
              Str n \<Rightarrow> Inr (py_replace message ''{name}'' n)
            | NonStr t \<Rightarrow> Inl (TypeError ''replace() argument 2 must be str''))
      else Inr message)"

text \<open>
  Line 132, \<^verbatim>\<open>index + 1\<close> inside the progress line: a number and \<^verbatim>\<open>nan\<close> take the
  addition, a text label raises \<^verbatim>\<open>TypeError\<close>.
\<close>

definition index_plus_one :: "label \<Rightarrow> py_exn + unit" where
  "index_plus_one index =
     (case index of
        StrLabel s \<Rightarrow> Inl (TypeError ''can only concatenate str (not int) to str'')
      | _ \<Rightarrow> Inr ())"

text \<open>
  Line 148, \<^verbatim>\<open>index < total - 1\<close>: the label is compared, not the position of the row;
  \<^verbatim>\<open>nan\<close> is less than nothing. (A text label never gets here.)
\<close>

definition index_less :: "label \<Rightarrow> int \<Rightarrow> bool" where
  "index_less index bound =
     (case index of NumLabel x \<Rightarrow> x < of_int bound | NanLabel \<Rightarrow> False | StrLabel s \<Rightarrow> False)"

text \<open>
  The body of the loop, lines 126-150, for a row of a table of \<open>total_n\<close> rows, in the
  order of the source: the name, the phone, the message, the progress line, the
  dispatch, the count, the detail, the sleep. An exception leaves the body before
  anything was changed. \<open>e\<close> is what the dispatch of this row reads from outside.
\<close>

definition loop_body ::
  "dispatch_env \<Rightarrow> string \<Rightarrow> bool \<Rightarrow> nat \<Rightarrow> row \<Rightarrow> results \<Rightarrow> world
     \<Rightarrow> py_exn + results \<times> world" where
  "loop_body e message personalize total_n r res w =
     (let index = index_label r;
          name = row_get_name r
      in case row_phone r of
           Inl x \<Rightarrow> Inl x
         | Inr phone \<Rightarrow>
             (case current_message message name personalize of
                Inl x \<Rightarrow> Inl x
              | Inr cur \<Rightarrow>
                  (case index_plus_one index of
                     Inl x \<Rightarrow> Inl x
                   | Inr u \<Rightarrow>
                       (let (ok, w1) = send_message e phone cur None w;
                            res1 = (if ok then res\<lparr>success := success res + 1\<rparr>
                                    else res\<lparr>failed := failed res + 1\<rparr>);
                            res2 = res1\<lparr>details := details res1 @
                                     [\<lparr>d_name = name, d_phone = phone,
                                       d_status = (if ok then ''success'' else ''failed'')\<rparr>]\<rparr>;
                            w2 = (if index_less index (int total_n - 1)
                                  then w1\<lparr>slept := slept w1 + 30\<rparr> else w1)
                        in Inr (res2, w2)))))"

text \<open>
  The loop \<^verbatim>\<open>for index, row in df.iterrows()\<close>: it ends with the rows, or with the
  first exception, which it hands on together with what had been reached. \<open>k\<close> counts
  the dispatches made so far: \<open>env k\<close> is what the next dispatch reads from outside.
\<close>

fun bulk_loop ::
  "(nat \<Rightarrow> dispatch_env) \<Rightarrow> string \<Rightarrow> bool \<Rightarrow> nat \<Rightarrow> nat \<Rightarrow> row list \<Rightarrow> results \<Rightarrow> world
     \<Rightarrow> py_exn option \<times> results \<times> world" where
  "bulk_loop env message personalize total_n k [] res w = (None, res, w)"
| "bulk_loop env message personalize total_n k (r # rs) res w =
     (case loop_body (env k) message personalize total_n r res w of
        Inl x \<Rightarrow> (Some x, res, w)
      | Inr (res', w') \<Rightarrow> bulk_loop env message personalize total_n (Suc k) rs res' w')"

text \<open>
  \<^verbatim>\<open>send_bulk_messages(contacts_file, message, personalize=False)\<close>, lines 103-161.
  \<open>loaded\<close> is what \<^verbatim>\<open>pd.read_csv(contacts_file)\<close> does: it raises (\<open>Inl\<close>) or returns
  the rows. Both the normal end and the handler of line 159 return \<^verbatim>\<open>results\<close>, so an
  exception only cuts the run short.
\<close>

definition send_bulk_messages ::
  "(nat \<Rightarrow> dispatch_env) \<Rightarrow> py_exn + row list \<Rightarrow> string \<Rightarrow> bool \<Rightarrow> world \<Rightarrow> results \<times> world" where
  "send_bulk_messages env loaded message personalize w =
     (let res0 = \<lparr>success = 0, failed = 0, details = []\<rparr>
      in case loaded of
           Inl e \<Rightarrow> (res0, w)
         | Inr df \<Rightarrow> snd (bulk_loop env message personalize (length df) 0 df res0 w))"

section \<open>scheduler.py\<close>

text \<open>
  \<^verbatim>\<open>schedule_message(phone_number, message, hour, minute)\<close>, lines 17-50: the channel is
  called with the given time and without \<^verbatim>\<open>close_time\<close>; nothing is logged.
\<close>

definition schedule_message ::
  "dispatch_env \<Rightarrow> string \<Rightarrow> string \<Rightarrow> int \<Rightarrow> int \<Rightarrow> world \<Rightarrow> bool \<times> world" where
  "schedule_message env phone_number message hour minute w =
     (let phone = with_country_code phone_number;
          w1 = w\<lparr>sent := sent w @
                 [\<lparr>cc_phone = phone, cc_message = message, cc_hour = hour,
                   cc_minute = minute, cc_wait = WAIT_TIME, cc_close = None\<rparr>]\<rparr>
      in case outcome env of None \<Rightarrow> (True, w1) | Some e \<Rightarrow> (False, w1))"

section \<open>contact\_manager.py\<close>

text \<open>
  A cell of the contact table, by its value. \<open>Text\<close> is a Python \<^verbatim>\<open>str\<close>. \<open>Number\<close>
  stands for an int or a float: Python and pandas compare numbers by value whatever
  their type (\<^verbatim>\<open>9001 == 9001.0\<close>), and \<^verbatim>\<open>pd.concat\<close>, which turns an int64 column
  into float64 when the column of the other table is float64, leaves the value of
  every number as it is (phone numbers are far below \<open>2 ^ 53\<close>, up to where float64
  holds every integer). \<open>Missing\<close> is the \<^verbatim>\<open>nan\<close> of an empty cell and of a column
  that one of two concatenated tables does not have; \<^verbatim>\<open>drop_duplicates\<close> takes two
  missing cells as equal. A text and a number are never equal: \<^verbatim>\<open>'9001' == 9001\<close> is
  false.
\<close>

datatype cval = Text string | Number real | Missing

record contact =
  c_name :: cval
  c_phone :: cval
  c_group :: cval

text \<open>
  A table: its rows, and whether it has a \<^verbatim>\<open>phone\<close> column at all. The manager's state
  is the table in memory (\<^verbatim>\<open>self.contacts\<close>) and the file at \<^verbatim>\<open>self.file_path\<close>: the
  table last written to it, \<open>None\<close> while there is no file. Writing the file is taken
  to succeed.
\<close>

record table =
  phone_column :: bool
  t_rows :: "contact list"

record manager =
  contacts :: table
  csv_file :: "table option"

definition save_contacts :: "manager \<Rightarrow> manager" where
  "save_contacts m = m\<lparr>csv_file := Some (contacts m)\<rparr>"

text \<open>
  \<^verbatim>\<open>pd.concat([a, b], ignore_index=True)\<close>: the rows of \<open>a\<close>, then the rows of \<open>b\<close>;
  the result has a phone column when one of the two has, and the rows of the other
  get missing cells there.
\<close>

definition phone_cells :: "table \<Rightarrow> contact list" where
  "phone_cells a =
     (if phone_column a then t_rows a else map (\<lambda>c. c\<lparr>c_phone := Missing\<rparr>) (t_rows a))"

definition pd_concat :: "table \<Rightarrow> table \<Rightarrow> table" where
  "pd_concat a b =
     \<lparr>phone_column = (phone_column a \<or> phone_column b),
      t_rows = phone_cells a @ phone_cells b\<rparr>"

text \<open>\<^verbatim>\<open>add_contact(name, phone, group="general")\<close>, lines 34-43.\<close>

definition add_contact :: "string \<Rightarrow> string \<Rightarrow> string option \<Rightarrow> manager \<Rightarrow> manager" where
  "add_contact name phone group_arg m =
     (let new_contact =
            \<lparr>phone_column = True,
             t_rows = [\<lparr>c_name = Text name, c_phone = Text phone,
               c_group = Text (case group_arg of None \<Rightarrow> ''general'' | Some g \<Rightarrow> g)\<rparr>]\<rparr>
      in save_contacts (m\<lparr>contacts := pd_concat (contacts m) new_contact\<rparr>))"

text \<open>
  \<^verbatim>\<open>DataFrame.drop_duplicates(subset=['phone'], keep='last')\<close>: a row goes when a later
  row has an equal phone cell; the rows that stay keep their order.
\<close>

fun drop_duplicates_last :: "contact list \<Rightarrow> contact list" where
  "drop_duplicates_last [] = []"
| "drop_duplicates_last (c # cs) =
     (if c_phone c \<in> set (map c_phone cs) then drop_duplicates_last cs
      else c # drop_duplicates_last cs)"

text \<open>
  \<^verbatim>\<open>import_from_excel(excel_path)\<close>, lines 81-90. \<open>excel\<close> is what
  \<^verbatim>\<open>pd.read_excel(excel_path)\<close> does: it raises, and the handler leaves the manager as
  it was, or it returns the sheet. Line 85 stores the concatenated table; line 86
  raises \<^verbatim>\<open>KeyError\<close> when that table has no phone column, and the handler then leaves
  it as stored, with no row dropped and nothing saved.
\<close>

definition import_from_excel :: "py_exn + table \<Rightarrow> manager \<Rightarrow> manager" where
  "import_from_excel excel m =
     (case excel of
        Inl e \<Rightarrow> m
      | Inr df \<Rightarrow>
          (let m1 = m\<lparr>contacts := pd_concat (contacts m) df\<rparr>
           in if phone_column (contacts m1)
              then save_contacts
                (m1\<lparr>contacts := (contacts m1)\<lparr>t_rows := drop_duplicates_last (t_rows (contacts m1))\<rparr>\<rparr>)
              else m1))"

section \<open>Rows that can be dispatched\<close>

text \<open>
  A row the loop body gets through without an exception: it has a phone entry, its
  name, when the message is personalised and the row has a name entry, is text, and
  its label is not text.
\<close>

fun is_text :: "cell \<Rightarrow> bool" where
  "is_text (Str s) = True"
| "is_text (NonStr t) = False"

fun is_str_label :: "label \<Rightarrow> bool" where
  "is_str_label (StrLabel s) = True"
| "is_str_label (NumLabel x) = False"
| "is_str_label NanLabel = False"

definition dispatchable :: "bool \<Rightarrow> row \<Rightarrow> bool" where
  "dispatchable personalize r =
     (phone_cell r \<noteq> None \<and>
      (personalize \<longrightarrow> (case name_cell r of None \<Rightarrow> True | Some c \<Rightarrow> is_text c)) \<and>
      \<not> is_str_label (index_label r))"

section \<open>Example data\<close>

text \<open>
  Three recipients A, B and C, and an outside world in which the delivery channel
  raises for the second dispatch (index 1) with the given reason and returns for every
  other one.
\<close>

definition abc_rows :: "row list" where
  "abc_rows =
     [\<lparr>index_label = NumLabel 0, name_cell = Some (Str ''A''),
        phone_cell = Some (Str ''9001'')\<rparr>,
      \<lparr>index_label = NumLabel 1, name_cell = Some (Str ''B''),
        phone_cell = Some (Str ''9002'')\<rparr>,
      \<lparr>index_label = NumLabel 2, name_cell = Some (Str ''C''),
        phone_cell = Some (Str ''+44 9003'')\<rparr>]"

definition second_fails :: "string \<Rightarrow> nat \<Rightarrow> dispatch_env" where
  "second_fails reason k =
     \<lparr>now_hour = 10, now_minute = 5,
      outcome = (if k = 1 then Some reason else None), stamp = ''t''\<rparr>"

definition all_succeed :: "nat \<Rightarrow> dispatch_env" where
  "all_succeed k = \<lparr>now_hour = 10, now_minute = 5, outcome = None, stamp = ''t''\<rparr>"

definition fresh_world :: world where
  "fresh_world = \<lparr>log_file = [], sent = [], slept = 0\<rparr>"

text \<open>
  The same three rows read from a file whose second line has an empty name:
  \<^verbatim>\<open>pd.read_csv\<close> fills the cell with the float \<^verbatim>\<open>nan\<close>.
\<close>

definition empty_name_rows :: "row list" where
  "empty_name_rows =
     [\<lparr>index_label = NumLabel 0, name_cell = Some (Str ''A''),
        phone_cell = Some (Str ''9001'')\<rparr>,
      \<lparr>index_label = NumLabel 1, name_cell = Some (NonStr ''nan''),
        phone_cell = Some (Str ''9002'')\<rparr>,
      \<lparr>index_label = NumLabel 2, name_cell = Some (Str ''C''),
        phone_cell = Some (Str ''+44 9003'')\<rparr>]"

text \<open>
  A file whose data lines have one field more than the header
  (\<^verbatim>\<open>name,phone\<close> / \<^verbatim>\<open>X,A,9001\<close> / \<^verbatim>\<open>Y,B,9002\<close>): the first field of each line is the
  label of its row.
\<close>

definition text_label_rows :: "row list" where
  "text_label_rows =
     [\<lparr>index_label = StrLabel ''X'', name_cell = Some (Str ''A''),
        phone_cell = Some (NonStr ''9001'')\<rparr>,
      \<lparr>index_label = StrLabel ''Y'', name_cell = Some (Str ''B''),
        phone_cell = Some (NonStr ''9002'')\<rparr>]"

text \<open>
  The manager as it starts without a file (line 27: no rows, the three columns), and a
  sheet whose one row holds the phone 9001 in a numeric cell.
\<close>

definition new_manager :: manager where
  "new_manager =
     \<lparr>contacts = \<lparr>phone_column = True, t_rows = []\<rparr>, csv_file = None\<rparr>"

definition numeric_sheet :: table where
  "numeric_sheet =
     \<lparr>phone_column = True,
      t_rows = [\<lparr>c_name = Text ''Anna'', c_phone = Number 9001, c_group = Text ''family''\<rparr>]\<rparr>"

section \<open>One dispatch\<close>

lemma startswith_plus: "startswith s ''+'' = (\<exists>rest. s = CHR ''+'' # rest)"
  by (cases s) (auto simp: startswith_def)

lemma sent_send_message:
  "sent (snd (send_message env raw message wt w)) =
     sent w @ [\<lparr>cc_phone = with_country_code raw, cc_message = message,
       cc_hour = fst (target_time (now_hour env) (now_minute env)),
       cc_minute = snd (target_time (now_hour env) (now_minute env)),
       cc_wait = (case wt of None \<Rightarrow> WAIT_TIME | Some t \<Rightarrow> t),
       cc_close = Some CLOSE_TIME\<rparr>]"
  by (simp add: send_message_def log_message_def Let_def split: prod.splits option.splits)

lemma log_send_message:
  "log_file (snd (send_message env raw message wt w)) =
     log_file w @ [log_entry (stamp env) (with_country_code raw) message
        (case outcome env of None \<Rightarrow> ''SUCCESS'' | Some r \<Rightarrow> ''FAILED: '' @ r)]"
  by (simp add: send_message_def log_message_def Let_def split: prod.splits option.splits)

lemma fst_send_message: "fst (send_message env raw message wt w) = (outcome env = None)"
  by (simp add: send_message_def Let_def split: prod.splits option.splits)

lemma slept_send_message: "slept (snd (send_message env raw message wt w)) = slept w"
  by (simp add: send_message_def log_message_def Let_def split: prod.splits option.splits)

lemma sent_schedule_message:
  "sent (snd (schedule_message env raw message h m w)) =
     sent w @ [\<lparr>cc_phone = with_country_code raw, cc_message = message, cc_hour = h,
       cc_minute = m, cc_wait = WAIT_TIME, cc_close = None\<rparr>]"
  by (simp add: schedule_message_def Let_def split: option.splits)

text \<open>The scheduler's send path leaves the log as it was.\<close>

lemma log_schedule_message:
  "log_file (snd (schedule_message env raw message h m w)) = log_file w"
  by (simp add: schedule_message_def Let_def split: option.splits)

text \<open>
  C5. A number that starts with \<open>+\<close> reaches the delivery channel unchanged; any other
  number, the empty one too, reaches it as the configured country code followed by the
  number as given. This holds for \<^verbatim>\<open>send_message\<close> and for \<^verbatim>\<open>schedule_message\<close>; either
  makes exactly one channel call, whatever the number looks like.
\<close>

theorem normalize_phone:
  "(raw = CHR ''+'' # rest \<longrightarrow>
      map cc_phone (sent (snd (send_message env raw message wt w))) =
        map cc_phone (sent w) @ [raw] \<and>
      map cc_phone (sent (snd (schedule_message env raw message h m w))) =
        map cc_phone (sent w) @ [raw]) \<and>
   ((\<forall>rest. raw \<noteq> CHR ''+'' # rest) \<longrightarrow>
      map cc_phone (sent (snd (send_message env raw message wt w))) =
        map cc_phone (sent w) @ [DEFAULT_COUNTRY_CODE @ raw] \<and>
      map cc_phone (sent (snd (schedule_message env raw message h m w))) =
        map cc_phone (sent w) @ [DEFAULT_COUNTRY_CODE @ raw])"
  by (auto simp: sent_send_message sent_schedule_message with_country_code_def
      startswith_plus)

theorem normalize_phone_witness:
  "map cc_phone (sent (snd (send_message
      \<lparr>now_hour = 10, now_minute = 5, outcome = None, stamp = ''t''\<rparr> ''+4912'' ''hi'' None
      \<lparr>log_file = [], sent = [], slept = 0\<rparr>))) = [''+4912''] \<and>
   map cc_phone (sent (snd (schedule_message
      \<lparr>now_hour = 10, now_minute = 5, outcome = Some ''x'', stamp = ''t''\<rparr> ''98765'' ''hi'' 9 0
      \<lparr>log_file = [], sent = [], slept = 0\<rparr>))) = [''+9198765''] \<and>
   map cc_phone (sent (snd (send_message
      \<lparr>now_hour = 10, now_minute = 5, outcome = None, stamp = ''t''\<rparr> [] ''hi'' None
      \<lparr>log_file = [], sent = [], slept = 0\<rparr>))) = [''+91'']"
proof -
  let ?e = "\<lparr>now_hour = 10, now_minute = 5, outcome = None, stamp = ''t''\<rparr>"
  let ?f = "\<lparr>now_hour = 10, now_minute = 5, outcome = Some ''x'', stamp = ''t''\<rparr>"
  let ?w = "\<lparr>log_file = [], sent = [], slept = 0\<rparr>"
  have a: "''+4912'' = CHR ''+'' # ''4912''" by simp
  have b: "\<forall>rest. ''98765'' \<noteq> CHR ''+'' # rest" by simp
  have c: "\<forall>rest. [] \<noteq> CHR ''+'' # rest" by simp
  from a normalize_phone [where raw = "''+4912''" and rest = "''4912''" and env = ?e
      and message = "''hi''" and wt = None and w = ?w]
  have 1: "map cc_phone (sent (snd (send_message ?e ''+4912'' ''hi'' None ?w))) = [''+4912'']"
    by simp
  from b normalize_phone [where raw = "''98765''" and env = ?f and message = "''hi''" and h = 9
      and m = 0 and w = ?w]
  have 2: "map cc_phone (sent (snd (schedule_message ?f ''98765'' ''hi'' 9 0 ?w))) =
      [''+9198765'']"
    by (simp add: DEFAULT_COUNTRY_CODE_def)
  from c normalize_phone [where raw = "[]" and env = ?e and message = "''hi''" and wt = None
      and w = ?w]
  have 3: "map cc_phone (sent (snd (send_message ?e [] ''hi'' None ?w))) = [''+91'']"
    by (simp add: DEFAULT_COUNTRY_CODE_def)
  from 1 2 3 show ?thesis by simp
qed

section \<open>The target time\<close>

text \<open>Whenever the minute runs over, the hour goes up by one and the minute down by 60.\<close>

lemma target_time_overflow:
  "now_m + 2 > 59 \<Longrightarrow> target_time now_h now_m = (now_h + 1, now_m + 2 - 60)"
  by (simp add: target_time_def Let_def)

lemma target_time_plain:
  "now_m + 2 \<le> 59 \<Longrightarrow> target_time now_h now_m = (now_h, now_m + 2)"
  by (simp add: target_time_def Let_def)

text \<open>
  C4. At 23:59 the minute runs over and the hour is raised to 24: the channel is called
  for 24:01, and nothing wraps the hour to 0.
\<close>

theorem target_time_at_2359:
  "target_time 23 59 = (24, 1) \<and>
   map (\<lambda>c. (cc_hour c, cc_minute c)) (sent (snd (send_message
      \<lparr>now_hour = 23, now_minute = 59, outcome = None, stamp = ''t''\<rparr> ''+4912'' ''hi'' None
      \<lparr>log_file = [], sent = [], slept = 0\<rparr>))) = [(24, 1)]"
  by (simp add: sent_send_message target_time_def Let_def)

section \<open>Personalisation\<close>

lemma replace_scan_id:
  "\<not> (\<exists>u v. s = u @ old @ v) \<Longrightarrow> replace_scan s old new = s"
proof (induction s)
  case Nil
  then show ?case by simp
next
  case (Cons c cs)
  have no_start: "\<not> startswith (c # cs) old"
  proof
    assume "startswith (c # cs) old"
    then have "c # cs = [] @ old @ drop (length old) (c # cs)"
      unfolding startswith_def by (metis append_Nil append_take_drop_id)
    with Cons.prems show False by blast
  qed
  have "\<not> (\<exists>u v. cs = u @ old @ v)"
  proof
    assume "\<exists>u v. cs = u @ old @ v"
    then obtain u v where "cs = u @ old @ v" by blast
    then have "c # cs = (c # u) @ old @ v" by simp
    with Cons.prems show False by blast
  qed
  with Cons.IH have "replace_scan cs old new = cs" by blast
  with no_start show ?case by simp
qed

text \<open>
  C9. A message in which the token \<open>{name}\<close> does not occur is left as it is by the
  personalisation, whatever the name: personalising a text that has no token left
  changes nothing.
\<close>

theorem personalize_no_token:
  "\<not> (\<exists>u v. message = u @ ''{name}'' @ v) \<Longrightarrow>
     current_message message (Str n) True = Inr message"
  by (simp add: current_message_def py_replace_def replace_scan_id)

theorem personalize_no_token_witness:
  "current_message ''Hi Bob {nam}'' (Str ''Eve'') True = Inr ''Hi Bob {nam}''"
proof -
  have "\<not> (\<exists>u v. ''Hi Bob {nam}'' = u @ ''{name}'' @ v)"
  proof
    assume "\<exists>u v. ''Hi Bob {nam}'' = u @ ''{name}'' @ v"
    then obtain u v where uv: "''Hi Bob {nam}'' = u @ ''{name}'' @ v" by blast
    have "CHR ''e'' \<in> set (u @ ''{name}'' @ v)" by simp
    with uv have "CHR ''e'' \<in> set ''Hi Bob {nam}''" by simp
    then show False by simp
  qed
  then show ?thesis by (rule personalize_no_token)
qed

text \<open>
  The token cannot overlap a copy of itself, so an occurrence is never found across
  the border of the text in front of one.
\<close>

lemma token_not_across:
  assumes "u \<noteq> []" and "startswith (u @ ''{name}'' @ v) ''{name}''"
  shows "startswith u ''{name}''"
proof -
  obtain a u1 where u: "u = a # u1" using assms(1) by (cases u) auto
  show ?thesis
  proof (cases u1)
    case Nil
    with u assms(2) show ?thesis by (simp add: startswith_def)
  next
    case (Cons b u2)
    note u1 = this
    show ?thesis
    proof (cases u2)
      case Nil
      with u u1 assms(2) show ?thesis by (simp add: startswith_def)
    next
      case (Cons c u3)
      note u2 = this
      show ?thesis
      proof (cases u3)
        case Nil
        with u u1 u2 assms(2) show ?thesis by (simp add: startswith_def)
      next
        case (Cons d u4)
        note u3 = this
        show ?thesis
        proof (cases u4)
          case Nil
          with u u1 u2 u3 assms(2) show ?thesis by (simp add: startswith_def)
        next
          case (Cons e u5)
          note u4 = this
          show ?thesis
          proof (cases u5)
            case Nil
            with u u1 u2 u3 u4 assms(2) show ?thesis by (simp add: startswith_def)
          next
            case (Cons f u6)
            with u u1 u2 u3 u4 assms(2) show ?thesis by (simp add: startswith_def)
          qed
        qed
      qed
    qed
  qed
qed

lemma startswith_length: "startswith s p \<Longrightarrow> length p \<le> length s"
  unfolding startswith_def by (metis length_take min.cobounded1)

lemma startswith_append: "startswith s p \<Longrightarrow> startswith (s @ t) p"
  using startswith_length [of s p] by (simp add: startswith_def)

lemma replace_scan_at_token:
  "replace_scan (''{name}'' @ v) ''{name}'' new = new @ replace_scan v ''{name}'' new"
  by (simp add: startswith_def)

text \<open>
  Every occurrence of the token is replaced: the text in front of an occurrence and
  the text behind it are personalised on their own, and the new text stands between
  them.
\<close>

lemma replace_scan_token:
  "tok = ''{name}'' \<Longrightarrow>
     replace_scan (u @ tok @ v) tok new = replace_scan u tok new @ new @ replace_scan v tok new"
proof (induction u tok new rule: replace_scan.induct)
  case (1 old new)
  then show ?case using replace_scan_at_token [of v new] by simp
next
  case (2 c cs old new)
  show ?case
  proof (cases "startswith (c # cs) old")
    case True
    then have len: "length old \<le> length (c # cs)"
      by (rule startswith_length)
    from True have whole: "startswith (c # cs @ old @ v) old"
      using startswith_append [of "c # cs" old "old @ v"] by simp
    from len "2.prems" have "drop (length old - 1) (cs @ old @ v) = drop (length old - 1) cs @ old @ v"
      by simp
    with True whole "2.IH"(1) [OF True "2.prems"] show ?thesis by simp
  next
    case False
    have "\<not> startswith (c # cs @ old @ v) old"
      using token_not_across [of "c # cs" v] False "2.prems" by auto
    with False "2.IH"(2) [OF False "2.prems"] show ?thesis by simp
  qed
qed

lemma personalize_every_occurrence:
  "py_replace (u @ ''{name}'' @ v) ''{name}'' n =
     py_replace u ''{name}'' n @ n @ py_replace v ''{name}'' n"
  using replace_scan_token [of "''{name}''" u v n] by (simp add: py_replace_def)

text \<open>
  For a row whose name is text, and for a row without a name entry, the bulk run does
  resolve the name and personalise as described: the name of the row or \<open>Friend\<close>,
  put in place of the token when \<open>personalize\<close> is set, the template as it is otherwise.
\<close>

lemma current_message_text:
  "name_cell r = Some (Str n) \<Longrightarrow>
     row_get_name r = Str n \<and>
     current_message message (row_get_name r) True = Inr (py_replace message ''{name}'' n) \<and>
     current_message message (row_get_name r) False = Inr message"
  by (simp add: row_get_name_def current_message_def)

lemma current_message_no_name:
  "name_cell r = None \<Longrightarrow>
     row_get_name r = Str ''Friend'' \<and>
     current_message message (row_get_name r) True =
       Inr (py_replace message ''{name}'' ''Friend'') \<and>
     current_message message (row_get_name r) False = Inr message"
  by (simp add: row_get_name_def current_message_def)

section \<open>A bulk run\<close>

text \<open>
  C10. When reading the contacts file raises, the bulk run returns the counts 0 and 0
  and no details, and the world is as before: no channel call, no log entry, no sleep.
\<close>

theorem bulk_load_failure:
  "send_bulk_messages env (Inl e) message personalize w =
     (\<lparr>success = 0, failed = 0, details = []\<rparr>, w)"
  by (simp add: send_bulk_messages_def)

theorem bulk_load_failure_witness:
  "send_bulk_messages (\<lambda>i. \<lparr>now_hour = 10, now_minute = 5, outcome = None, stamp = ''t''\<rparr>)
     (Inl (FileError ''contacts.csv'')) ''Hi {name}'' True
     \<lparr>log_file = [''old''], sent = [], slept = 0\<rparr> =
   (\<lparr>success = 0, failed = 0, details = []\<rparr>, \<lparr>log_file = [''old''], sent = [], slept = 0\<rparr>)"
  by (rule bulk_load_failure)

lemma row_phone_dispatchable:
  "dispatchable p r \<Longrightarrow> row_phone r = Inr (projr (row_phone r))"
  by (auto simp: dispatchable_def row_phone_def split: option.splits)

lemma current_message_dispatchable:
  "dispatchable p r \<Longrightarrow>
     current_message message (row_get_name r) p =
       Inr (projr (current_message message (row_get_name r) p))"
  by (cases "row_get_name r")
    (auto simp: dispatchable_def current_message_def row_get_name_def split: option.splits)

lemma index_plus_one_dispatchable:
  "dispatchable p r \<Longrightarrow> index_plus_one (index_label r) = Inr ()"
  by (cases "index_label r") (simp_all add: dispatchable_def index_plus_one_def)

text \<open>What the loop body does with a row it can dispatch.\<close>

lemma loop_body_dispatchable:
  assumes "dispatchable p r"
  shows "loop_body e message p total_n r res w =
     Inr (res\<lparr>success := success res + (if outcome e = None then 1 else 0),
              failed := failed res + (if outcome e = None then 0 else 1),
              details := details res @
                [\<lparr>d_name = row_get_name r, d_phone = projr (row_phone r),
                  d_status = (if outcome e = None then ''success'' else ''failed'')\<rparr>]\<rparr>,
          (snd (send_message e (projr (row_phone r))
                  (projr (current_message message (row_get_name r) p)) None w))
            \<lparr>slept := slept w +
               (if index_less (index_label r) (int total_n - 1) then 30 else 0)\<rparr>)"
proof -
  obtain ph where ph: "row_phone r = Inr ph"
    using row_phone_dispatchable [OF assms] by blast
  obtain cur where cur: "current_message message (row_get_name r) p = Inr cur"
    using current_message_dispatchable [OF assms] by blast
  note idx = index_plus_one_dispatchable [OF assms]
  obtain ok w1 where sm: "send_message e ph cur None w = (ok, w1)"
    by (cases "send_message e ph cur None w")
  have ok: "ok = (outcome e = None)"
    using fst_send_message [of e ph cur None w] sm by simp
  have sl: "slept w1 = slept w"
    using slept_send_message [of e ph cur None w] sm by simp
  show ?thesis
    by (simp add: loop_body_def ph cur idx sm ok sl Let_def)
qed

text \<open>
  A text label ends the run at its row, whatever the row holds otherwise: nothing of
  that row is dispatched, counted or logged.
\<close>

lemma loop_body_text_label:
  "index_label r = StrLabel s \<Longrightarrow> \<exists>x. loop_body e message p total_n r res w = Inl x"
  by (simp add: loop_body_def index_plus_one_def Let_def split: sum.splits)

text \<open>
  A loop over rows that can all be dispatched ends without an exception, and each of
  its effects is the list of the rows' effects, row by row (\<open>enumerate k rows\<close> pairs
  every row with the number of its dispatch).
\<close>

lemma bulk_loop_completes:
  "\<forall>r \<in> set rows. dispatchable p r \<Longrightarrow>
     fst (bulk_loop env message p total_n k rows res w) = None"
  by (induction rows arbitrary: k res w) (simp_all add: loop_body_dispatchable)

lemma bulk_loop_details:
  "\<forall>r \<in> set rows. dispatchable p r \<Longrightarrow>
     details (fst (snd (bulk_loop env message p total_n k rows res w))) =
       details res @
       map (\<lambda>(i, r). \<lparr>d_name = row_get_name r, d_phone = projr (row_phone r),
              d_status = (if outcome (env i) = None then ''success'' else ''failed'')\<rparr>)
         (enumerate k rows)"
  by (induction rows arbitrary: k res w) (simp_all add: loop_body_dispatchable)

lemma bulk_loop_success:
  "\<forall>r \<in> set rows. dispatchable p r \<Longrightarrow>
     success (fst (snd (bulk_loop env message p total_n k rows res w))) =
       success res + int (length (filter (\<lambda>(i, r). outcome (env i) = None) (enumerate k rows)))"
  by (induction rows arbitrary: k res w) (simp_all add: loop_body_dispatchable)

lemma bulk_loop_failed:
  "\<forall>r \<in> set rows. dispatchable p r \<Longrightarrow>
     failed (fst (snd (bulk_loop env message p total_n k rows res w))) =
       failed res + int (length (filter (\<lambda>(i, r). outcome (env i) \<noteq> None) (enumerate k rows)))"
  by (induction rows arbitrary: k res w) (simp_all add: loop_body_dispatchable)

lemma bulk_loop_log:
  "\<forall>r \<in> set rows. dispatchable p r \<Longrightarrow>
     log_file (snd (snd (bulk_loop env message p total_n k rows res w))) =
       log_file w @
       map (\<lambda>(i, r). log_entry (stamp (env i)) (with_country_code (projr (row_phone r)))
              (projr (current_message message (row_get_name r) p))
              (case outcome (env i) of None \<Rightarrow> ''SUCCESS'' | Some e \<Rightarrow> ''FAILED: '' @ e))
         (enumerate k rows)"
  by (induction rows arbitrary: k res w)
    (simp_all add: loop_body_dispatchable log_send_message)

lemma bulk_loop_sent:
  "\<forall>r \<in> set rows. dispatchable p r \<Longrightarrow>
     sent (snd (snd (bulk_loop env message p total_n k rows res w))) =
       sent w @
       map (\<lambda>(i, r). \<lparr>cc_phone = with_country_code (projr (row_phone r)),
              cc_message = projr (current_message message (row_get_name r) p),
              cc_hour = fst (target_time (now_hour (env i)) (now_minute (env i))),
              cc_minute = snd (target_time (now_hour (env i)) (now_minute (env i))),
              cc_wait = WAIT_TIME, cc_close = Some CLOSE_TIME\<rparr>)
         (enumerate k rows)"
  by (induction rows arbitrary: k res w)
    (simp_all add: loop_body_dispatchable sent_send_message)

lemma map_enumerate_snd: "map (\<lambda>x. f (snd x)) (enumerate i xs) = map f xs"
  by (induction xs arbitrary: i) simp_all

lemma upt_shift: "[i..<i + Suc n] = i # [Suc i..<Suc i + n]"
  by (simp add: upt_conv_Cons del: upt_Suc)

lemma map_enumerate_fst: "map (\<lambda>(k, r). g k) (enumerate i xs) = map g [i..<i + length xs]"
proof (induction xs arbitrary: i)
  case Nil
  then show ?case by simp
next
  case (Cons x xs)
  have "[i..<i + length (x # xs)] = i # [Suc i..<Suc i + length xs]"
    using upt_shift [of i "length xs"] by simp
  with Cons.IH [of "Suc i"] show ?case by simp
qed

lemma filter_enumerate_fst:
  "length (filter (\<lambda>(k, r). P k) (enumerate i xs)) = length (filter P [i..<i + length xs])"
proof (induction xs arbitrary: i)
  case Nil
  then show ?case by simp
next
  case (Cons x xs)
  have "[i..<i + length (x # xs)] = i # [Suc i..<Suc i + length xs]"
    using upt_shift [of i "length xs"] by simp
  with Cons.IH [of "Suc i"] show ?case by simp
qed

text \<open>
  For rows that can all be dispatched the counts add up to the number of rows, and the
  details are the rows' names and phones, one entry per row, in the order of the rows.
\<close>

lemma dispatchable_counts_and_order:
  assumes "\<forall>r \<in> set rows. dispatchable personalize r"
  shows "success (fst (send_bulk_messages env (Inr rows) message personalize w)) +
         failed (fst (send_bulk_messages env (Inr rows) message personalize w)) =
           int (length rows) \<and>
         length (details (fst (send_bulk_messages env (Inr rows) message personalize w))) =
           length rows \<and>
         map d_phone (details (fst (send_bulk_messages env (Inr rows) message personalize w))) =
           map (\<lambda>r. projr (row_phone r)) rows \<and>
         map d_name (details (fst (send_bulk_messages env (Inr rows) message personalize w))) =
           map row_get_name rows"
proof -
  let ?run = "bulk_loop env message personalize (length rows) 0 rows
      \<lparr>success = 0, failed = 0, details = []\<rparr> w"
  have run: "fst (send_bulk_messages env (Inr rows) message personalize w) = fst (snd ?run)"
    by (simp add: send_bulk_messages_def)
  have "length (filter (\<lambda>(k, r). outcome (env k) = None) (enumerate 0 rows)) +
      length (filter (\<lambda>(k, r). outcome (env k) \<noteq> None) (enumerate 0 rows)) =
      length (enumerate 0 rows)"
    using sum_length_filter_compl [of "\<lambda>(k, r). outcome (env k) = None" "enumerate 0 rows"]
    by (simp add: case_prod_unfold)
  then have counts: "success (fst (snd ?run)) + failed (fst (snd ?run)) = int (length rows)"
    by (simp add: bulk_loop_success [OF assms] bulk_loop_failed [OF assms])
  have len: "length (details (fst (snd ?run))) = length rows"
    by (simp add: bulk_loop_details [OF assms])
  have phones: "map d_phone (details (fst (snd ?run))) = map (\<lambda>r. projr (row_phone r)) rows"
    using map_enumerate_snd [of "\<lambda>r. projr (row_phone r)" 0 rows]
    by (simp add: bulk_loop_details [OF assms] comp_def case_prod_unfold)
  have names: "map d_name (details (fst (snd ?run))) = map row_get_name rows"
    using map_enumerate_snd [of row_get_name 0 rows]
    by (simp add: bulk_loop_details [OF assms] comp_def case_prod_unfold)
  from counts len phones names show ?thesis
    unfolding run by blast
qed

text \<open>
  For rows that can all be dispatched the log grows by one entry per row.
\<close>

lemma dispatchable_log_length:
  assumes "\<forall>r \<in> set rows. dispatchable personalize r"
  shows "length (log_file (snd (send_bulk_messages env (Inr rows) message personalize w))) =
     length (log_file w) + length rows"
  by (simp add: send_bulk_messages_def bulk_loop_log [OF assms])

text \<open>The entry that one call of \<^verbatim>\<open>send_message\<close> appends, character by character.\<close>

lemma send_message_logs_once:
  "log_file (snd (send_message e phone body wt w)) =
     log_file w @
     [''['' @ stamp e @ ''] '' @ with_country_code phone @ '' | '' @
      (case outcome e of None \<Rightarrow> ''SUCCESS'' | Some r \<Rightarrow> ''FAILED: '' @ r) @
      '' | '' @ take 50 body @ ''...'' @ [CHR 0x0A]]"
  by (simp add: log_send_message log_entry_def)

text \<open>
  C1, as the code has it. When every row can be dispatched, each row is handed to the
  delivery channel, in order, whatever the channel did with the rows before it; the
  detail of a row says \<^verbatim>\<open>success\<close> or \<^verbatim>\<open>failed\<close> and nothing else, the counts are the
  numbers of dispatches that returned and that raised, and the reason of a failure is
  in the log entry of that row.
\<close>

theorem bulk_run_isolates_failures:
  assumes "\<forall>r \<in> set rows. dispatchable personalize r"
  shows "map cc_phone (sent (snd (send_bulk_messages env (Inr rows) message personalize w))) =
           map cc_phone (sent w) @ map (\<lambda>r. with_country_code (projr (row_phone r))) rows \<and>
         map d_status (details (fst (send_bulk_messages env (Inr rows) message personalize w))) =
           map (\<lambda>k. if outcome (env k) = None then ''success'' else ''failed'')
             [0..<length rows] \<and>
         success (fst (send_bulk_messages env (Inr rows) message personalize w)) =
           int (length (filter (\<lambda>k. outcome (env k) = None) [0..<length rows])) \<and>
         failed (fst (send_bulk_messages env (Inr rows) message personalize w)) =
           int (length (filter (\<lambda>k. outcome (env k) \<noteq> None) [0..<length rows])) \<and>
         log_file (snd (send_bulk_messages env (Inr rows) message personalize w)) =
           log_file w @
           map (\<lambda>(k, r). log_entry (stamp (env k)) (with_country_code (projr (row_phone r)))
                  (projr (current_message message (row_get_name r) personalize))
                  (case outcome (env k) of None \<Rightarrow> ''SUCCESS'' | Some e \<Rightarrow> ''FAILED: '' @ e))
             (enumerate 0 rows)"
proof -
  let ?run = "bulk_loop env message personalize (length rows) 0 rows
      \<lparr>success = 0, failed = 0, details = []\<rparr> w"
  have run: "send_bulk_messages env (Inr rows) message personalize w = snd ?run"
    by (simp add: send_bulk_messages_def)
  have calls: "map cc_phone (sent (snd (snd ?run))) =
      map cc_phone (sent w) @ map (\<lambda>r. with_country_code (projr (row_phone r))) rows"
    using map_enumerate_snd [of "\<lambda>r. with_country_code (projr (row_phone r))" 0 rows]
    by (simp add: bulk_loop_sent [OF assms] comp_def case_prod_unfold)
  have status: "map d_status (details (fst (snd ?run))) =
      map (\<lambda>k. if outcome (env k) = None then ''success'' else ''failed'') [0..<length rows]"
    using map_enumerate_fst
      [of "\<lambda>k. if outcome (env k) = None then ''success'' else ''failed''" 0 rows]
    by (simp add: bulk_loop_details [OF assms] comp_def case_prod_unfold)
  have good: "success (fst (snd ?run)) =
      int (length (filter (\<lambda>k. outcome (env k) = None) [0..<length rows]))"
    using filter_enumerate_fst [of "\<lambda>k. outcome (env k) = None" 0 rows]
    by (simp add: bulk_loop_success [OF assms])
  have bad: "failed (fst (snd ?run)) =
      int (length (filter (\<lambda>k. outcome (env k) \<noteq> None) [0..<length rows]))"
    using filter_enumerate_fst [of "\<lambda>k. outcome (env k) \<noteq> None" 0 rows]
    by (simp add: bulk_loop_failed [OF assms])
  have logged: "log_file (snd (snd ?run)) =
      log_file w @
      map (\<lambda>(k, r). log_entry (stamp (env k)) (with_country_code (projr (row_phone r)))
             (projr (current_message message (row_get_name r) personalize))
             (case outcome (env k) of None \<Rightarrow> ''SUCCESS'' | Some e \<Rightarrow> ''FAILED: '' @ e))
        (enumerate 0 rows)"
    by (rule bulk_loop_log [OF assms])
  from calls status good bad logged show ?thesis
    unfolding run by blast
qed

text \<open>
  The run over A, B and C, evaluated: the reason shows in the second line of the log
  and nowhere else.
\<close>

lemma greet: "py_replace ''Hi {name}'' ''{name}'' n = ''Hi '' @ n"
  by (simp add: py_replace_def startswith_def)

lemma abc_run:
  "send_bulk_messages (second_fails reason) (Inr abc_rows) ''Hi {name}'' True fresh_world =
     (\<lparr>success = 2, failed = 1,
       details = [\<lparr>d_name = Str ''A'', d_phone = ''9001'', d_status = ''success''\<rparr>,
                  \<lparr>d_name = Str ''B'', d_phone = ''9002'', d_status = ''failed''\<rparr>,
                  \<lparr>d_name = Str ''C'', d_phone = ''+44 9003'', d_status = ''success''\<rparr>]\<rparr>,
      \<lparr>log_file = [''[t] +919001 | SUCCESS | Hi A...'' @ [CHR 0x0A],
                   ''[t] +919002 | FAILED: '' @ reason @ '' | Hi B...'' @ [CHR 0x0A],
                   ''[t] +44 9003 | SUCCESS | Hi C...'' @ [CHR 0x0A]],
       sent = [\<lparr>cc_phone = ''+919001'', cc_message = ''Hi A'', cc_hour = 10, cc_minute = 7,
                 cc_wait = 15, cc_close = Some 3\<rparr>,
               \<lparr>cc_phone = ''+919002'', cc_message = ''Hi B'', cc_hour = 10, cc_minute = 7,
                 cc_wait = 15, cc_close = Some 3\<rparr>,
               \<lparr>cc_phone = ''+44 9003'', cc_message = ''Hi C'', cc_hour = 10, cc_minute = 7,
                 cc_wait = 15, cc_close = Some 3\<rparr>],
       slept = 60\<rparr>)"
  by (simp add: send_bulk_messages_def abc_rows_def second_fails_def fresh_world_def
      loop_body_def row_get_name_def row_phone_def current_message_def greet
      index_plus_one_def index_less_def log_entry_def
      send_message_def log_message_def with_country_code_def startswith_def target_time_def
      DEFAULT_COUNTRY_CODE_def WAIT_TIME_def CLOSE_TIME_def Let_def)

theorem bulk_run_isolates_failures_witness:
  "map cc_phone (sent (snd (send_bulk_messages (second_fails ''session timeout'')
      (Inr abc_rows) ''Hi {name}'' True fresh_world))) =
     [''+919001'', ''+919002'', ''+44 9003''] \<and>
   map d_status (details (fst (send_bulk_messages (second_fails ''session timeout'')
      (Inr abc_rows) ''Hi {name}'' True fresh_world))) =
     [''success'', ''failed'', ''success''] \<and>
   success (fst (send_bulk_messages (second_fails ''session timeout'')
      (Inr abc_rows) ''Hi {name}'' True fresh_world)) = 2 \<and>
   failed (fst (send_bulk_messages (second_fails ''session timeout'')
      (Inr abc_rows) ''Hi {name}'' True fresh_world)) = 1 \<and>
   log_file (snd (send_bulk_messages (second_fails ''session timeout'')
      (Inr abc_rows) ''Hi {name}'' True fresh_world)) =
     [''[t] +919001 | SUCCESS | Hi A...'' @ [CHR 0x0A],
      ''[t] +919002 | FAILED: session timeout | Hi B...'' @ [CHR 0x0A],
      ''[t] +44 9003 | SUCCESS | Hi C...'' @ [CHR 0x0A]]"
proof -
  let ?env = "second_fails ''session timeout''"
  have ok: "\<forall>r \<in> set abc_rows. dispatchable True r"
    by (simp add: abc_rows_def dispatchable_def)
  have r0: "sent fresh_world = []" "log_file fresh_world = []"
    by (simp_all add: fresh_world_def)
  have r1: "map (\<lambda>r. with_country_code (projr (row_phone r))) abc_rows =
      [''+919001'', ''+919002'', ''+44 9003'']"
    by (simp add: abc_rows_def row_phone_def with_country_code_def startswith_def
        DEFAULT_COUNTRY_CODE_def)
  have r2: "map (\<lambda>k. if outcome (?env k) = None then ''success'' else ''failed'')
      [0..<length abc_rows] = [''success'', ''failed'', ''success'']"
    by (simp add: abc_rows_def second_fails_def upt_rec)
  have r3: "int (length (filter (\<lambda>k. outcome (?env k) = None) [0..<length abc_rows])) = 2"
    by (simp add: abc_rows_def second_fails_def upt_rec)
  have r4: "int (length (filter (\<lambda>k. outcome (?env k) \<noteq> None) [0..<length abc_rows])) = 1"
    by (simp add: abc_rows_def second_fails_def upt_rec)
  have r5: "map (\<lambda>(k, r). log_entry (stamp (?env k)) (with_country_code (projr (row_phone r)))
                  (projr (current_message ''Hi {name}'' (row_get_name r) True))
                  (case outcome (?env k) of None \<Rightarrow> ''SUCCESS'' | Some e \<Rightarrow> ''FAILED: '' @ e))
             (enumerate 0 abc_rows) =
      [''[t] +919001 | SUCCESS | Hi A...'' @ [CHR 0x0A],
       ''[t] +919002 | FAILED: session timeout | Hi B...'' @ [CHR 0x0A],
       ''[t] +44 9003 | SUCCESS | Hi C...'' @ [CHR 0x0A]]"
    by (simp add: abc_rows_def second_fails_def row_phone_def row_get_name_def
        current_message_def greet with_country_code_def startswith_def log_entry_def
        DEFAULT_COUNTRY_CODE_def)
  from bulk_run_isolates_failures [OF ok, of ?env "''Hi {name}''" fresh_world]
  show ?thesis unfolding r0 r1 r2 r3 r4 r5 by simp
qed

text \<open>
  The detail of B is the name, the phone and the word \<^verbatim>\<open>failed\<close>; the whole result of
  the run is the same when B fails for another reason, so no part of it holds the
  reason.
\<close>

theorem detail_carries_no_reason:
  "details (fst (send_bulk_messages (second_fails ''session timeout'') (Inr abc_rows)
      ''Hi {name}'' True fresh_world)) ! 1 =
     \<lparr>d_name = Str ''B'', d_phone = ''9002'', d_status = ''failed''\<rparr> \<and>
   fst (send_bulk_messages (second_fails ''session timeout'') (Inr abc_rows)
      ''Hi {name}'' True fresh_world) =
   fst (send_bulk_messages (second_fails ''number not on WhatsApp'') (Inr abc_rows)
      ''Hi {name}'' True fresh_world)"
  by (simp add: abc_run)

text \<open>
  C6. The second row has an empty name. \<^verbatim>\<open>row.get('name', 'Friend')\<close> finds the key and
  returns the \<^verbatim>\<open>nan\<close> of the cell, not the placeholder; with personalisation on,
  \<^verbatim>\<open>str.replace\<close> raises for it, and the handler of line 159 ends the run: B and C are
  never dispatched and have no detail.
\<close>

theorem empty_name_aborts_run:
  "row_get_name (empty_name_rows ! 1) = NonStr ''nan'' \<and>
   current_message ''Hi {name}'' (row_get_name (empty_name_rows ! 1)) True =
     Inl (TypeError ''replace() argument 2 must be str'') \<and>
   send_bulk_messages all_succeed (Inr empty_name_rows) ''Hi {name}'' True fresh_world =
     (\<lparr>success = 1, failed = 0,
       details = [\<lparr>d_name = Str ''A'', d_phone = ''9001'', d_status = ''success''\<rparr>]\<rparr>,
      \<lparr>log_file = [log_entry ''t'' ''+919001'' ''Hi A'' ''SUCCESS''],
       sent = [\<lparr>cc_phone = ''+919001'', cc_message = ''Hi A'', cc_hour = 10, cc_minute = 7,
                 cc_wait = 15, cc_close = Some 3\<rparr>],
       slept = 30\<rparr>)"
  by (simp add: send_bulk_messages_def empty_name_rows_def all_succeed_def fresh_world_def
      loop_body_def row_get_name_def row_phone_def current_message_def greet
      index_plus_one_def index_less_def
      send_message_def log_message_def with_country_code_def startswith_def target_time_def
      DEFAULT_COUNTRY_CODE_def WAIT_TIME_def CLOSE_TIME_def Let_def)

text \<open>The same run, as far as the results dictionary and the log go.\<close>

lemma empty_name_run:
  "fst (send_bulk_messages all_succeed (Inr empty_name_rows) ''Hi {name}'' True fresh_world) =
     \<lparr>success = 1, failed = 0,
       details = [\<lparr>d_name = Str ''A'', d_phone = ''9001'', d_status = ''success''\<rparr>]\<rparr> \<and>
   log_file (snd (send_bulk_messages all_succeed (Inr empty_name_rows) ''Hi {name}'' True
      fresh_world)) = [''[t] +919001 | SUCCESS | Hi A...'' @ [CHR 0x0A]]"
  by (simp add: send_bulk_messages_def empty_name_rows_def all_succeed_def fresh_world_def
      loop_body_def row_get_name_def row_phone_def current_message_def greet
      index_plus_one_def index_less_def log_entry_def
      send_message_def log_message_def with_country_code_def startswith_def target_time_def
      DEFAULT_COUNTRY_CODE_def WAIT_TIME_def CLOSE_TIME_def Let_def)

text \<open>
  C2. The table with the empty name has three rows. The run over it, personalised,
  returns the counts 1 and 0, which add up to 1, and one detail, that of A: the
  exception of the second row ends the loop, and B and C are neither counted nor
  listed.
\<close>

theorem counts_fall_short_of_rows:
  "length empty_name_rows = 3 \<and>
   success (fst (send_bulk_messages all_succeed (Inr empty_name_rows) ''Hi {name}'' True
      fresh_world)) +
   failed (fst (send_bulk_messages all_succeed (Inr empty_name_rows) ''Hi {name}'' True
      fresh_world)) = 1 \<and>
   map d_phone (details (fst (send_bulk_messages all_succeed (Inr empty_name_rows)
      ''Hi {name}'' True fresh_world))) = [''9001'']"
  by (simp add: empty_name_run) (simp add: empty_name_rows_def)

text \<open>
  C3. One dispatch does append one entry, but the run over the three rows of the table
  with the empty name leaves one line in the log, that of A: B and C are never
  dispatched and never logged. The scheduler's send path calls the channel and writes
  no entry at all.
\<close>

theorem log_falls_short_of_rows:
  "length empty_name_rows = 3 \<and>
   log_file (snd (send_bulk_messages all_succeed (Inr empty_name_rows) ''Hi {name}'' True
      fresh_world)) = [''[t] +919001 | SUCCESS | Hi A...'' @ [CHR 0x0A]] \<and>
   length (sent (snd (schedule_message (all_succeed 0) ''9001'' ''Hi'' 9 0 fresh_world))) = 1 \<and>
   log_file (snd (schedule_message (all_succeed 0) ''9001'' ''Hi'' 9 0 fresh_world)) = []"
  by (simp add: empty_name_run log_schedule_message sent_schedule_message)
    (simp add: empty_name_rows_def fresh_world_def)

text \<open>
  A table with text labels: every row has a name and a phone, and the run ends at the
  progress line of the first row, with nothing dispatched.
\<close>

lemma text_labels_dispatch_nothing:
  "send_bulk_messages all_succeed (Inr text_label_rows) ''Hi {name}'' True fresh_world =
     (\<lparr>success = 0, failed = 0, details = []\<rparr>, fresh_world)"
  by (simp add: send_bulk_messages_def text_label_rows_def
      loop_body_def row_get_name_def row_phone_def current_message_def
      index_plus_one_def Let_def)

section \<open>The contact table\<close>

lemma phones_drop_duplicates_last:
  "set (map c_phone (drop_duplicates_last cs)) = set (map c_phone cs)"
  by (induction cs) auto

lemma set_drop_duplicates_last: "set (drop_duplicates_last cs) \<subseteq> set cs"
  by (induction cs) auto

lemma distinct_drop_duplicates_last: "distinct (map c_phone (drop_duplicates_last cs))"
proof (induction cs)
  case Nil
  then show ?case by simp
next
  case (Cons c cs)
  have "c_phone c \<notin> set (map c_phone (drop_duplicates_last cs))"
    if "c_phone c \<notin> set (map c_phone cs)"
    using that phones_drop_duplicates_last [of cs] by simp
  with Cons.IH show ?case by simp
qed

text \<open>The row that stays for a phone cell is the last row of the table with that cell.\<close>

lemma last_drop_duplicates_last:
  "c \<in> set (drop_duplicates_last cs) \<Longrightarrow> c = last (filter (\<lambda>x. c_phone x = c_phone c) cs)"
proof (induction cs)
  case Nil
  then show ?case by simp
next
  case (Cons a cs)
  show ?case
  proof (cases "c \<in> set (drop_duplicates_last cs)")
    case True
    then have c: "c = last (filter (\<lambda>x. c_phone x = c_phone c) cs)"
      by (rule Cons.IH)
    from True have "c \<in> set cs"
      using set_drop_duplicates_last [of cs] by blast
    then have "filter (\<lambda>x. c_phone x = c_phone c) cs \<noteq> []"
      by (auto simp: filter_empty_conv)
    with c show ?thesis by simp
  next
    case False
    with Cons.prems have new: "c = a" "c_phone a \<notin> set (map c_phone cs)"
      by (auto split: if_splits)
    then have "\<forall>x \<in> set cs. c_phone x \<noteq> c_phone c"
      by (metis image_eqI set_map)
    then have "filter (\<lambda>x. c_phone x = c_phone c) cs = []"
      by (simp add: filter_empty_conv)
    with new show ?thesis by simp
  qed
qed

text \<open>
  What an import does hold: among the rows of the table followed by the rows of the
  sheet, the rows that stay have pairwise different phone cells, no phone cell is
  lost, and the row that stays for a cell is the last one with it. Cells are compared
  as values: two texts, two numbers or two missing cells can be equal, a text and a
  number cannot.
\<close>

lemma import_drops_equal_cells:
  assumes "phone_column (contacts m) \<or> phone_column df"
  shows "t_rows (contacts (import_from_excel (Inr df) m)) =
           drop_duplicates_last (phone_cells (contacts m) @ phone_cells df) \<and>
         distinct (map c_phone (t_rows (contacts (import_from_excel (Inr df) m)))) \<and>
         set (map c_phone (t_rows (contacts (import_from_excel (Inr df) m)))) =
           set (map c_phone (phone_cells (contacts m) @ phone_cells df))"
proof -
  have "t_rows (contacts (import_from_excel (Inr df) m)) =
      drop_duplicates_last (phone_cells (contacts m) @ phone_cells df)"
    using assms by (auto simp: import_from_excel_def pd_concat_def save_contacts_def Let_def)
  then show ?thesis
    using distinct_drop_duplicates_last phones_drop_duplicates_last by metis
qed

text \<open>Adding a contact by hand appends one row, with the phone as text, and drops none.\<close>

lemma add_contact_appends:
  "t_rows (contacts (add_contact name phone grp m)) =
     phone_cells (contacts m) @
     [\<lparr>c_name = Text name, c_phone = Text phone,
       c_group = Text (case grp of None \<Rightarrow> ''general'' | Some g \<Rightarrow> g)\<rparr>]"
  by (simp add: add_contact_def pd_concat_def save_contacts_def phone_cells_def Let_def)

text \<open>
  C7. Ann is added by hand with the phone 9001, which \<^verbatim>\<open>add_contact\<close> stores as the
  text it was given. The sheet that is imported next holds 9001 in a numeric cell.
  \<^verbatim>\<open>drop_duplicates\<close> compares the text with the number, finds them different and
  keeps both rows: after the import the table, and the file written from it, hold the
  phone number 9001 twice.
\<close>

theorem import_keeps_number_twice:
  "contacts (import_from_excel (Inr numeric_sheet)
      (add_contact ''Ann'' ''9001'' None new_manager)) =
     \<lparr>phone_column = True,
      t_rows = [\<lparr>c_name = Text ''Ann'', c_phone = Text ''9001'', c_group = Text ''general''\<rparr>,
                \<lparr>c_name = Text ''Anna'', c_phone = Number 9001,
                  c_group = Text ''family''\<rparr>]\<rparr> \<and>
   csv_file (import_from_excel (Inr numeric_sheet)
      (add_contact ''Ann'' ''9001'' None new_manager)) =
     Some (contacts (import_from_excel (Inr numeric_sheet)
       (add_contact ''Ann'' ''9001'' None new_manager)))"
  by (simp add: import_from_excel_def add_contact_def pd_concat_def phone_cells_def
      save_contacts_def new_manager_def numeric_sheet_def Let_def)

end
